theory Spec2Isabelle
  imports Complex_Main
begin

section \<open>JavaScript numbers\<close>

text \<open>
  The program computes with JavaScript numbers, IEEE doubles. A number is modelled as a real
  or \<open>NaN\<close>: every operation on \<open>NaN\<close> gives \<open>NaN\<close>, and every comparison with
  \<open>NaN\<close> is false, as in JavaScript.

  The operators \<open>+\<close>, \<open>-\<close>, \<open>*\<close> and \<open>/\<close> of the model are exact. They stand for the
  arithmetic of the multiplier table, of the motion of a ball and of its collisions, where
  the results here are either concrete values away from every rounding boundary or orderings
  that rounding keeps. Where the outcome is the cell or the slot that a coordinate falls
  into, in the spatial grid, in the layout of the slots and in the slot-entry check, the
  operations are the rounded ones, \<open>fadd\<close>, \<open>fmul\<close> and \<open>fdiv\<close> below: the exact result
  rounded to the nearest double, a tie to the even one.

  JavaScript never raises on a division: \<open>0 / 0\<close> is \<open>NaN\<close>, and a non-zero
  dividend over zero is an infinity. Infinities are not part of this model, neither from a
  division nor from overflow, and division by zero is \<open>NaN\<close> throughout. At every division
  of the modelled code the divisor is a non-zero constant or vanishes only together with its
  dividend, with two exceptions: the row height of \<open>generatePegs\<close> for a single row, where
  the quotient is multiplied by zero at once, which gives \<open>NaN\<close> for an infinity as well,
  and the slot width of \<open>generateSlots\<close> for no slots, which nothing reads.
\<close>

datatype number = Num real | NaN

instantiation number :: "{plus, minus, uminus, times, inverse, abs, ord}"
begin

fun plus_number :: "number \<Rightarrow> number \<Rightarrow> number" where
  "Num a + Num b = Num (a + b)"
| "_ + _ = NaN"

fun minus_number :: "number \<Rightarrow> number \<Rightarrow> number" where
  "Num a - Num b = Num (a - b)"
| "_ - _ = NaN"

fun uminus_number :: "number \<Rightarrow> number" where
  "- Num a = Num (- a)"
| "- NaN = NaN"

fun times_number :: "number \<Rightarrow> number \<Rightarrow> number" where
  "Num a * Num b = Num (a * b)"
| "_ * _ = NaN"

fun divide_number :: "number \<Rightarrow> number \<Rightarrow> number" where
  "Num a div Num b = (if b = 0 then NaN else Num (a / b))"
| "_ div _ = NaN"

definition inverse_number :: "number \<Rightarrow> number" where
  "inverse_number a = Num 1 div a"

fun abs_number :: "number \<Rightarrow> number" where
  "\<bar>Num a\<bar> = Num \<bar>a\<bar>"
| "\<bar>NaN\<bar> = NaN"

fun less_number :: "number \<Rightarrow> number \<Rightarrow> bool" where
  "(Num a < Num b) = (a < b)"
| "(Num a < NaN) = False"
| "(NaN < b) = False"

fun less_eq_number :: "number \<Rightarrow> number \<Rightarrow> bool" where
  "(Num a \<le> Num b) = (a \<le> b)"
| "(Num a \<le> NaN) = False"
| "(NaN \<le> b) = False"

instance ..

end

text \<open>
  Rounding to the nearest double. A double is an integer of less than 53 bits times a power
  of two; between \<open>2^e\<close> and \<open>2^(e+1)\<close> the doubles are \<open>2^(e-52)\<close> apart, and below
  \<open>2^(-1022)\<close> they are \<open>2^(-1074)\<close> apart.
\<close>

definition pow2 :: "int \<Rightarrow> real" where
  "pow2 k = (if 0 \<le> k then 2 ^ nat k else 1 / 2 ^ nat (- k))"

definition roundTiesToEven :: "real \<Rightarrow> int" where
  "roundTiesToEven y =
     (let f = \<lfloor>y\<rfloor>
      in if y - of_int f < 1 / 2 then f
         else if 1 / 2 < y - of_int f then f + 1
         else if even f then f else f + 1)"

definition roundDouble :: "real \<Rightarrow> real" where
  "roundDouble v =
     (if v = 0 then 0
      else (let u = pow2 (max (\<lfloor>log 2 \<bar>v\<bar>\<rfloor> - 52) (- 1074))
            in u * of_int (roundTiesToEven (v / u))))"

text \<open>Addition, multiplication and division as the machine performs them.\<close>

fun fadd :: "number \<Rightarrow> number \<Rightarrow> number" where
  "fadd (Num a) (Num b) = Num (roundDouble (a + b))"
| "fadd _ _ = NaN"

fun fmul :: "number \<Rightarrow> number \<Rightarrow> number" where
  "fmul (Num a) (Num b) = Num (roundDouble (a * b))"
| "fmul _ _ = NaN"

fun fdiv :: "number \<Rightarrow> number \<Rightarrow> number" where
  "fdiv (Num a) (Num b) = (if b = 0 then NaN else Num (roundDouble (a / b)))"
| "fdiv _ _ = NaN"

text \<open>\<open>Number.isFinite\<close>: the value is an ordinary number.\<close>

fun isFinite :: "number \<Rightarrow> bool" where
  "isFinite (Num a) = True"
| "isFinite NaN = False"

text \<open>\<open>Math.sqrt\<close>: \<open>NaN\<close> below zero.\<close>

fun Math_sqrt :: "number \<Rightarrow> number" where
  "Math_sqrt (Num a) = (if a < 0 then NaN else Num (sqrt a))"
| "Math_sqrt NaN = NaN"

text \<open>
  \<open>Math.pow\<close> with a constant exponent. The only call raises a quotient of an absolute
  value to a positive exponent; a negative base is not modelled beyond \<open>NaN\<close>.
\<close>

fun Math_pow :: "number \<Rightarrow> real \<Rightarrow> number" where
  "Math_pow (Num a) c = (if a < 0 then NaN else Num (a powr c))"
| "Math_pow NaN c = NaN"

text \<open>\<open>Math.round\<close> rounds to the nearest integer, a half upwards.\<close>

fun Math_round :: "number \<Rightarrow> number" where
  "Math_round (Num a) = Num (of_int \<lfloor>a + 1 / 2\<rfloor>)"
| "Math_round NaN = NaN"

text \<open>
  \<open>Math.floor\<close> and \<open>Math.ceil\<close>: an integer, or \<open>None\<close> for \<open>NaN\<close>.
\<close>

fun Math_floor :: "number \<Rightarrow> int option" where
  "Math_floor (Num a) = Some \<lfloor>a\<rfloor>"
| "Math_floor NaN = None"

fun Math_ceil :: "number \<Rightarrow> int option" where
  "Math_ceil (Num a) = Some \<lceil>a\<rceil>"
| "Math_ceil NaN = None"

section \<open>Utils\<close>

text \<open>
  \<open>Utils.random(min, max)\<close> is \<open>Math.random() * (max - min) + min\<close>. The draw
  \<open>r\<close> of \<open>Math.random()\<close> is an argument of the model; the platform promises
  \<open>0 \<le> r < 1\<close>. Every call passes finite constants or an array length.
\<close>

definition Utils_random :: "real \<Rightarrow> real \<Rightarrow> real \<Rightarrow> real" where
  "Utils_random r lo hi = r * (hi - lo) + lo"

datatype riskLevel = Low | Medium | High

record multiplierSet =
  set_min :: real
  set_max :: real
  set_curve :: real

fun multiplierSets :: "riskLevel \<Rightarrow> multiplierSet" where
  "multiplierSets Low = \<lparr>set_min = 2 / 10, set_max = 9, set_curve = 15 / 10\<rparr>"
| "multiplierSets Medium = \<lparr>set_min = 3 / 10, set_max = 25, set_curve = 25 / 10\<rparr>"
| "multiplierSets High = \<lparr>set_min = 2 / 10, set_max = 1000, set_curve = 4\<rparr>"

text \<open>The rounding "to nearest standard value" of \<open>Utils.generateMultipliers\<close>.\<close>

definition roundStandard :: "number \<Rightarrow> number" where
  "roundStandard m =
     (if m > Num 10 then Math_round m
      else if m > Num 2 then Math_round (m * Num 2) / Num 2
      else Math_round (m * Num 10) / Num 10)"

text \<open>
  \<open>distanceFromCenter\<close> of slot \<open>i\<close>: \<open>Math.abs(i - centerIndex) / centerIndex\<close>
  with \<open>centerIndex = Math.floor(slots / 2)\<close>.
\<close>

definition distanceFromCenter :: "int \<Rightarrow> int \<Rightarrow> number" where
  "distanceFromCenter slots i =
     Num (of_int \<bar>i - slots div 2\<bar>) / Num (of_int (slots div 2))"

text \<open>
  The value of the distribution formula at slot \<open>i\<close>, rounded: the last branch of the
  loop body, which is the whole table where no override of the high risk level applies.
\<close>

definition curveMultiplier :: "riskLevel \<Rightarrow> int \<Rightarrow> int \<Rightarrow> number" where
  "curveMultiplier riskLevel slots i =
     (let s = multiplierSets riskLevel
      in roundStandard
           (Num (set_min s)
            + Num (set_max s - set_min s) * Math_pow (distanceFromCenter slots i) (set_curve s)))"

text \<open>The loop body of \<open>Utils.generateMultipliers\<close>: the multiplier pushed for slot \<open>i\<close>.\<close>

definition multiplierAt :: "riskLevel \<Rightarrow> int \<Rightarrow> int \<Rightarrow> number" where
  "multiplierAt riskLevel slots i =
     (let centerIndex = slots div 2;
          multiplier =
            (if riskLevel = High \<and> (i = 0 \<or> i = slots - 1) then Num 1000
             else if riskLevel = High \<and> (i = 1 \<or> i = slots - 2) then Num 130
             else if riskLevel = High \<and> (i = 2 \<or> i = slots - 3) then Num 26
             else curveMultiplier riskLevel slots i)
      in if riskLevel = High then
           (if 4 \<le> i \<and> i \<le> slots - 5 then
              (if \<bar>i - centerIndex\<bar> \<le> 1 then Num (2 / 10)
               else if \<bar>i - centerIndex\<bar> \<le> 3 then Num 2
               else multiplier)
            else multiplier)
         else multiplier)"

text \<open>\<open>Utils.generateMultipliers(riskLevel, slots)\<close>: one multiplier for each \<open>i\<close> from 0 below \<open>slots\<close>.\<close>

definition generateMultipliers :: "riskLevel \<Rightarrow> int \<Rightarrow> number list" where
  "generateMultipliers riskLevel slots = map (multiplierAt riskLevel slots) [0..slots - 1]"

text \<open>
  The other draft, \<open>PlinkoGame.generateMultipliers(riskLevel)\<close> of
  \<open>scripts/game-logic.js\<close>, takes no slot count: it looks the sequence up in a fixed table
  and renders one chip for each entry. The model returns the sequence that is rendered.
\<close>

fun PlinkoGame_generateMultipliers :: "riskLevel \<Rightarrow> number list" where
  "PlinkoGame_generateMultipliers Low =
     map Num [2 / 10, 5 / 10, 1, 2, 3, 5, 9]"
| "PlinkoGame_generateMultipliers Medium =
     map Num [3 / 10, 1, 2, 5, 10, 15, 25]"
| "PlinkoGame_generateMultipliers High =
     map Num [1000, 180, 260, 91, 48, 22, 2, 2, 2, 2, 24, 44, 94, 268, 630, 0]"

section \<open>The spatial grid\<close>

text \<open>
  A peg as \<open>generatePegs\<close> builds it. The \<open>hit\<close> flag is visual feedback: the collision
  handler raises it and a timer lowers it 100 ms later; nothing that is modelled here reads
  it, and the model leaves it as built.
\<close>

record peg =
  peg_x :: number
  peg_y :: number
  peg_radius :: number
  hit :: bool

text \<open>
  \<open>SpatialGrid\<close>: the object \<open>grid\<close> maps the key \<open>`${cellX},${cellY}`\<close> to the
  array of the objects of that cell. The key is modelled as the pair of the two cell
  coordinates, each an integer or \<open>None\<close> where the string reads \<open>NaN\<close>. A cell
  coordinate is the floor of the rounded quotient of a coordinate by the cell size.
\<close>

type_synonym cellKey = "int option \<times> int option"

record spatialGrid =
  cellSize :: number
  grid :: "cellKey \<rightharpoonup> peg list"

definition getCellKey :: "spatialGrid \<Rightarrow> number \<Rightarrow> number \<Rightarrow> cellKey" where
  "getCellKey g px py =
     (Math_floor (fdiv px (cellSize g)), Math_floor (fdiv py (cellSize g)))"

text \<open>The objects stored under a key: \<open>this.grid[key]\<close>, nothing where it is undefined.\<close>

definition cellObjects :: "spatialGrid \<Rightarrow> cellKey \<Rightarrow> peg list" where
  "cellObjects g key = (case grid g key of None \<Rightarrow> [] | Some objs \<Rightarrow> objs)"

definition addObject :: "spatialGrid \<Rightarrow> peg \<Rightarrow> spatialGrid" where
  "addObject g obj =
     (let key = getCellKey g (peg_x obj) (peg_y obj)
      in g\<lparr>grid := (grid g)(key \<mapsto> cellObjects g key @ [obj])\<rparr>)"

definition clear :: "spatialGrid \<Rightarrow> spatialGrid" where
  "clear g = g\<lparr>grid := Map.empty\<rparr>"

text \<open>
  \<open>getObjectsNear\<close>: both loops run from \<open>-cellRadius\<close> to \<open>cellRadius\<close>, and not at
  all when \<open>cellRadius\<close> is \<open>NaN\<close>. \<open>Math.floor(x / cellSize) + i\<close> stays \<open>NaN\<close>
  when the floor is. The quotients are rounded; the sums are sums of integers.
\<close>

definition getObjectsNear :: "spatialGrid \<Rightarrow> number \<Rightarrow> number \<Rightarrow> number \<Rightarrow> peg list" where
  "getObjectsNear g px py radius =
     (case Math_ceil (fdiv radius (cellSize g)) of
        None \<Rightarrow> []
      | Some cellRadius \<Rightarrow>
          concat (map (\<lambda>i.
            concat (map (\<lambda>j.
              (let cellX = map_option (\<lambda>c. c + i) (Math_floor (fdiv px (cellSize g)));
                   cellY = map_option (\<lambda>c. c + j) (Math_floor (fdiv py (cellSize g)))
               in cellObjects g (cellX, cellY)))
              [- cellRadius..cellRadius]))
            [- cellRadius..cellRadius]))"

section \<open>The physics engine\<close>

record slot =
  slot_x :: number
  slot_y :: number
  slot_width :: number
  slot_height :: number

text \<open>A ball as \<open>createBall\<close> builds it; \<open>path\<close> is the recorded trail.\<close>

record ball =
  ball_x :: number
  ball_y :: number
  ball_vx :: number
  ball_vy :: number
  ball_radius :: number
  rotation :: number
  sleeping :: bool
  path :: "(number \<times> number) list"
  inSlot :: bool
  slotIndex :: int

text \<open>The part of the browser window that the engine reads.\<close>

record window =
  innerWidth :: number
  innerHeight :: number

text \<open>
  The options object of the constructor; \<open>None\<close> is a missing option. \<open>lastFPSUpdate\<close> is
  never initialised: it is undefined, \<open>NaN\<close> in arithmetic, until \<open>update\<close> assigns it.
\<close>

record options =
  opt_gravity :: "number option"
  opt_restitution :: "number option"
  opt_friction :: "number option"
  opt_frameRate :: "number option"
  opt_cellSize :: "number option"
  opt_ballRadius :: "number option"

record physicsEngine =
  GRAVITY :: number
  RESTITUTION :: number
  FRICTION :: number
  FRAME_RATE :: number
  CELL_SIZE :: number
  spatialGrid :: spatialGrid
  ballRadius :: number
  lastFrameTime :: number
  frameCounter :: int
  fps :: int
  lastFPSUpdate :: number
  pegs :: "peg list"
  balls :: "ball list"
  slots :: "slot list"

text \<open>\<open>option || dflt\<close>: the default replaces a missing option, zero and \<open>NaN\<close>.\<close>

fun orElse :: "number option \<Rightarrow> number \<Rightarrow> number" where
  "orElse None dflt = dflt"
| "orElse (Some NaN) dflt = dflt"
| "orElse (Some (Num a)) dflt = (if a = 0 then dflt else Num a)"

text \<open>
  The constructor; \<open>mobile\<close> is the answer of \<open>Utils.isMobile()\<close>. The pegs, balls and
  slots are set by \<open>init\<close>; until then the lists are empty here.
\<close>

definition new_PhysicsEngine :: "options \<Rightarrow> bool \<Rightarrow> physicsEngine" where
  "new_PhysicsEngine opts mobile =
     (let gravity = orElse (opt_gravity opts) (Num (5 / 10));
          friction = orElse (opt_friction opts) (Num (2 / 100));
          cell = orElse (opt_cellSize opts) (Num 50)
      in \<lparr>GRAVITY = (if mobile then gravity * Num (12 / 10) else gravity),
          RESTITUTION = orElse (opt_restitution opts) (Num (7 / 10)),
          FRICTION = (if mobile then friction * Num (15 / 10) else friction),
          FRAME_RATE = orElse (opt_frameRate opts) (Num 60),
          CELL_SIZE = cell,
          spatialGrid = \<lparr>cellSize = cell, grid = Map.empty\<rparr>,
          ballRadius = orElse (opt_ballRadius opts) (Num 10),
          lastFrameTime = Num 0,
          frameCounter = 0,
          fps = 0,
          lastFPSUpdate = NaN,
          pegs = [],
          balls = [],
          slots = []\<rparr>)"

text \<open>\<open>init(gameObjects)\<close>: the grid is cleared and every peg added to it, in order.\<close>

definition init :: "physicsEngine \<Rightarrow> peg list \<Rightarrow> ball list \<Rightarrow> slot list \<Rightarrow> physicsEngine" where
  "init e ps bs ss =
     e\<lparr>pegs := ps, balls := bs, slots := ss,
       spatialGrid := foldl addObject (clear (spatialGrid e)) ps\<rparr>"

definition createBall :: "physicsEngine \<Rightarrow> number \<Rightarrow> number \<Rightarrow> ball" where
  "createBall e px py =
     \<lparr>ball_x = px, ball_y = py, ball_vx = Num 0, ball_vy = Num 0,
      ball_radius = ballRadius e, rotation = Num 0, sleeping = False,
      path = [], inSlot = False, slotIndex = - 1\<rparr>"

definition isOutOfBounds :: "window \<Rightarrow> ball \<Rightarrow> bool" where
  "isOutOfBounds w b = (ball_y b > innerHeight w + Num 100)"

text \<open>
  The body of the loop over the nearby pegs in \<open>handleCollisions\<close>. A collision consumes
  one draw of \<open>Math.random()\<close>: \<open>rnd\<close> is the sequence of the draws and \<open>k\<close> the number
  of draws used so far.
\<close>

definition collidePeg :: "physicsEngine \<Rightarrow> (nat \<Rightarrow> real) \<Rightarrow> ball \<times> nat \<Rightarrow> peg \<Rightarrow> ball \<times> nat" where
  "collidePeg e rnd bk p =
     (let b = fst bk; k = snd bk;
          dx = ball_x b - peg_x p;
          dy = ball_y b - peg_y p;
          distance = Math_sqrt (dx * dx + dy * dy);
          minDistance = ball_radius b + peg_radius p
      in if distance < minDistance then
           (let nx = dx / distance;
                ny = dy / distance;
                relativeVelocity = ball_vx b * nx + ball_vy b * ny;
                impulse = Num 2 * relativeVelocity * RESTITUTION e;
                vx1 = ball_vx b - impulse * nx;
                vy1 = ball_vy b - impulse * ny;
                tangentX = - ny;
                tangentY = nx;
                tangentVelocity = vx1 * tangentX + vy1 * tangentY;
                vx2 = vx1 - tangentVelocity * FRICTION e * tangentX;
                vy2 = vy1 - tangentVelocity * FRICTION e * tangentY;
                overlap = minDistance - distance;
                x1 = ball_x b + overlap * nx;
                y1 = ball_y b + overlap * ny;
                vx3 = vx2 + Num (Utils_random (rnd k) (- (1 / 10)) (1 / 10))
            in (b\<lparr>ball_x := x1, ball_y := y1, ball_vx := vx3, ball_vy := vy2\<rparr>, Suc k))
         else (b, k))"

text \<open>The wall check that ends \<open>handleCollisions\<close>.\<close>

definition collideWalls :: "physicsEngine \<Rightarrow> window \<Rightarrow> ball \<Rightarrow> ball" where
  "collideWalls e w b =
     (if ball_x b - ball_radius b < Num 0 then
        b\<lparr>ball_x := ball_radius b, ball_vx := - ball_vx b * RESTITUTION e\<rparr>
      else if ball_x b + ball_radius b > innerWidth w then
        b\<lparr>ball_x := innerWidth w - ball_radius b, ball_vx := - ball_vx b * RESTITUTION e\<rparr>
      else b)"

text \<open>
  \<open>handleCollisions\<close>: the nearby pegs are queried once, at the position the ball has on
  entry, and then visited in order, each against the position and velocity the ball has by
  then.
\<close>

definition handleCollisions :: "physicsEngine \<Rightarrow> window \<Rightarrow> (nat \<Rightarrow> real) \<Rightarrow> ball \<times> nat \<Rightarrow> ball \<times> nat" where
  "handleCollisions e w rnd bk =
     (let nearbyPegs =
            getObjectsNear (spatialGrid e) (ball_x (fst bk)) (ball_y (fst bk))
              (ball_radius (fst bk) * Num 3);
          bk' = foldl (collidePeg e rnd) bk nearbyPegs
      in (collideWalls e w (fst bk'), snd bk'))"

text \<open>
  \<open>checkSlotEntry\<close>: the loop over the slots returns at the first slot that holds the
  ball; \<open>i\<close> is the index of the first slot of the list. The right edge
  \<open>slot.x + slot.width\<close> and the centre \<open>slot.x + slot.width / 2\<close> are rounded sums.
\<close>

fun checkSlotEntryFrom :: "int \<Rightarrow> slot list \<Rightarrow> ball \<Rightarrow> ball" where
  "checkSlotEntryFrom i [] b = b"
| "checkSlotEntryFrom i (s # ss) b =
     (if ball_x b > slot_x s \<and> ball_x b < fadd (slot_x s) (slot_width s)
         \<and> ball_y b > slot_y s then
        b\<lparr>inSlot := True, slotIndex := i, ball_vx := Num 0, ball_vy := Num 0,
          ball_x := fadd (slot_x s) (fdiv (slot_width s) (Num 2))\<rparr>
      else checkSlotEntryFrom (i + 1) ss b)"

definition checkSlotEntry :: "physicsEngine \<Rightarrow> ball \<Rightarrow> ball" where
  "checkSlotEntry e b = checkSlotEntryFrom 0 (slots e) b"

text \<open>\<open>updateBall(ball, deltaTime)\<close>, with the draws of \<open>Math.random()\<close> threaded through.\<close>

definition updateBall :: "physicsEngine \<Rightarrow> window \<Rightarrow> number \<Rightarrow> (nat \<Rightarrow> real) \<Rightarrow> ball \<times> nat \<Rightarrow> ball \<times> nat" where
  "updateBall e w deltaTime rnd bk =
     (let b = fst bk; k = snd bk
      in if isOutOfBounds w b \<or> sleeping b \<or> inSlot b then (b, k)
         else
           (let timeScale = deltaTime / (Num 1000 / Num 60);
                b1 = b\<lparr>ball_vy := ball_vy b + GRAVITY e * timeScale\<rparr>;
                b2 = b1\<lparr>ball_x := ball_x b1 + ball_vx b1 * timeScale\<rparr>;
                b3 = b2\<lparr>ball_y := ball_y b2 + ball_vy b2 * timeScale\<rparr>;
                b4 = b3\<lparr>ball_vx := ball_vx b3 * Num (998 / 1000)\<rparr>;
                b5 = b4\<lparr>ball_vy := ball_vy b4 * Num (998 / 1000)\<rparr>;
                bk6 = handleCollisions e w rnd (b5, k);
                b6 = fst bk6;
                b7 = b6\<lparr>rotation := rotation b6 + ball_vx b6 * Num (1 / 10)\<rparr>;
                b8 = (if frameCounter e mod 3 = 0
                      then b7\<lparr>path := path b7 @ [(ball_x b7, ball_y b7)]\<rparr> else b7);
                b9 = checkSlotEntry e b8;
                b10 = (if \<bar>ball_vx b9\<bar> < Num (5 / 100) \<and> \<bar>ball_vy b9\<bar> < Num (5 / 100)
                          \<and> ball_y b9 > innerHeight w - Num 100
                       then b9\<lparr>sleeping := True\<rparr> else b9)
            in (b10, snd bk6)))"

text \<open>The loop of \<open>update\<close> over the balls, in order.\<close>

fun updateBalls :: "physicsEngine \<Rightarrow> window \<Rightarrow> number \<Rightarrow> (nat \<Rightarrow> real) \<Rightarrow> ball list \<Rightarrow> nat \<Rightarrow> ball list \<times> nat" where
  "updateBalls e w deltaTime rnd [] k = ([], k)"
| "updateBalls e w deltaTime rnd (b # bs) k =
     (let bk = updateBall e w deltaTime rnd (b, k);
          rest = updateBalls e w deltaTime rnd bs (snd bk)
      in (fst bk # fst rest, snd rest))"

text \<open>\<open>update(timestamp)\<close>; a call without a timestamp passes \<open>NaN\<close>.\<close>

definition update :: "physicsEngine \<Rightarrow> window \<Rightarrow> number \<Rightarrow> (nat \<Rightarrow> real) \<Rightarrow> nat \<Rightarrow> physicsEngine \<times> nat" where
  "update e w timestamp rnd k =
     (let deltaTime = timestamp - lastFrameTime e;
          e1 = e\<lparr>lastFrameTime := timestamp, frameCounter := frameCounter e + 1\<rparr>;
          e2 = (if timestamp - lastFPSUpdate e1 > Num 1000
                then e1\<lparr>fps := frameCounter e1, frameCounter := 0, lastFPSUpdate := timestamp\<rparr>
                else e1);
          r = updateBalls e2 w deltaTime rnd (balls e2) k
      in (e2\<lparr>balls := filter (\<lambda>b. \<not> (sleeping b \<or> isOutOfBounds w b)) (fst r)\<rparr>, snd r))"

section \<open>The game controller\<close>

text \<open>
  \<open>PlinkoGame\<close> of \<open>js/game.js\<close>: the canvas size, the layout part of \<open>gameState\<close>
  and the physics engine. The canvas takes the client size of its container, a pair of
  non-negative integers. Ball objects are shared between \<open>gameState.balls\<close> and the
  engine; the model hands the list over at \<open>init\<close>.
\<close>

record plinkoGame =
  canvas_width :: nat
  canvas_height :: nat
  gs_balls :: "ball list"
  gs_pegs :: "peg list"
  gs_slots :: "slot list"
  gs_risk :: riskLevel
  gs_rows :: int
  gs_multipliers :: "number list"
  physics :: physicsEngine

definition PEG_RADIUS :: number where "PEG_RADIUS = Num 4"
definition BALL_RADIUS :: number where "BALL_RADIUS = Num 8"
definition PEG_SPACING :: number where "PEG_SPACING = Num 40"
definition SLOT_HEIGHT :: number where "SLOT_HEIGHT = Num 40"

definition resizeCanvas :: "nat \<Rightarrow> nat \<Rightarrow> plinkoGame \<Rightarrow> plinkoGame" where
  "resizeCanvas clientWidth clientHeight g =
     g\<lparr>canvas_width := clientWidth, canvas_height := clientHeight\<rparr>"

text \<open>The peg that \<open>generatePegs\<close> pushes for a row and a column.\<close>

definition pegAt :: "plinkoGame \<Rightarrow> int \<Rightarrow> int \<Rightarrow> peg" where
  "pegAt g row col =
     (let startY = Num 80;
          endY = Num (real (canvas_height g)) - SLOT_HEIGHT - Num 20;
          availableHeight = endY - startY;
          rowHeight = availableHeight / Num (of_int (gs_rows g - 1));
          py = startY + Num (of_int row) * rowHeight;
          pegsInRow = row + 1;
          totalWidth = Num (of_int pegsInRow) * PEG_SPACING;
          startX = (Num (real (canvas_width g)) - totalWidth) / Num 2
                   + (if row mod 2 = 0 then PEG_SPACING / Num 2 else Num 0);
          px = startX + Num (of_int col) * PEG_SPACING
      in \<lparr>peg_x = px, peg_y = py, peg_radius = PEG_RADIUS, hit = False\<rparr>)"

definition generatePegs :: "plinkoGame \<Rightarrow> plinkoGame" where
  "generatePegs g =
     g\<lparr>gs_pegs := concat (map (\<lambda>row. map (pegAt g row) [0..row]) [0..gs_rows g - 1])\<rparr>"

text \<open>
  \<open>generateSlots\<close>: the slot width is the rounded quotient of the canvas width by the
  count, and the left edge of slot \<open>i\<close> the rounded product of \<open>i\<close> and that width. The
  threshold is a difference of integers.
\<close>

definition generateSlots :: "plinkoGame \<Rightarrow> int \<Rightarrow> plinkoGame" where
  "generateSlots g count =
     (let slotWidth = fdiv (Num (real (canvas_width g))) (Num (of_int count));
          slotY = Num (real (canvas_height g)) - SLOT_HEIGHT
      in g\<lparr>gs_slots :=
             map (\<lambda>i. \<lparr>slot_x = fmul (Num (of_int i)) slotWidth, slot_y = slotY,
                        slot_width = slotWidth, slot_height = SLOT_HEIGHT\<rparr>)
               [0..count - 1]\<rparr>)"

text \<open>
  \<open>initGame\<close>; the two arguments are the client size that \<open>resizeCanvas\<close> reads. The
  function ends by redrawing the multipliers and by calling \<open>gameLoop\<close>, which advances the
  balls and draws; neither touches the layout, and both are left out.
\<close>

definition initGame :: "nat \<Rightarrow> nat \<Rightarrow> plinkoGame \<Rightarrow> plinkoGame" where
  "initGame clientWidth clientHeight g =
     (let g1 = resizeCanvas clientWidth clientHeight g;
          g2 = generatePegs g1;
          slotCount = gs_rows g2 + 1;
          g3 = generateSlots g2 slotCount;
          g4 = g3\<lparr>gs_multipliers := generateMultipliers (gs_risk g3) slotCount\<rparr>
      in g4\<lparr>physics := init (physics g4) (gs_pegs g4) (gs_balls g4) (gs_slots g4)\<rparr>)"

text \<open>
  The constructor, with no stored settings: sixteen rows at high risk, animation speed 3.
\<close>

definition new_PlinkoGame :: "nat \<Rightarrow> nat \<Rightarrow> bool \<Rightarrow> plinkoGame" where
  "new_PlinkoGame clientWidth clientHeight mobile =
     initGame clientWidth clientHeight
       \<lparr>canvas_width = 300, canvas_height = 150,
        gs_balls = [], gs_pegs = [], gs_slots = [],
        gs_risk = High, gs_rows = 16, gs_multipliers = [],
        physics = new_PhysicsEngine
          \<lparr>opt_gravity = Some (Num (5 / 10) * (Num 3 / Num 3)), opt_restitution = None,
           opt_friction = None, opt_frameRate = None, opt_cellSize = None,
           opt_ballRadius = Some BALL_RADIUS\<rparr> mobile\<rparr>"

text \<open>
  The listeners of \<open>setupEventListeners\<close> that change the board: the window's resize, the
  change of the risk level and the change of the row count, whose argument is the result of
  \<open>parseInt\<close>. Saving the settings and redrawing are left out.
\<close>

definition windowResize :: "nat \<Rightarrow> nat \<Rightarrow> plinkoGame \<Rightarrow> plinkoGame" where
  "windowResize clientWidth clientHeight g =
     (let g1 = resizeCanvas clientWidth clientHeight g;
          g2 = generatePegs g1;
          g3 = generateSlots g2 (gs_rows g2 + 1)
      in g3\<lparr>physics := init (physics g3) (gs_pegs g3) (gs_balls g3) (gs_slots g3)\<rparr>)"

definition riskLevelChange :: "riskLevel \<Rightarrow> plinkoGame \<Rightarrow> plinkoGame" where
  "riskLevelChange v g =
     (let g1 = g\<lparr>gs_risk := v\<rparr>;
          slotCount = gs_rows g1 + 1
      in g1\<lparr>gs_multipliers := generateMultipliers (gs_risk g1) slotCount\<rparr>)"

definition rowsCountChange :: "int \<Rightarrow> nat \<Rightarrow> nat \<Rightarrow> plinkoGame \<Rightarrow> plinkoGame" where
  "rowsCountChange v clientWidth clientHeight g =
     initGame clientWidth clientHeight (g\<lparr>gs_rows := v\<rparr>)"

text \<open>
  The timer that \<open>dropBall\<close> sets for the ball it drops, as far as the ball goes: after ten
  seconds a ball that is in no slot is put into one, at the index
  \<open>Math.floor(Utils.random(0, slots.length))\<close>. \<open>handleWin\<close>, called next, pays out and
  leaves the ball as it is. \<open>r\<close> is the draw of \<open>Math.random()\<close>.
\<close>

definition dropBall_timeout :: "real \<Rightarrow> plinkoGame \<Rightarrow> ball \<Rightarrow> ball" where
  "dropBall_timeout r g b =
     (if \<not> inSlot b then
        b\<lparr>inSlot := True,
          slotIndex := \<lfloor>Utils_random r 0 (real (length (gs_slots g)))\<rfloor>\<rparr>
      else b)"

section \<open>The multiplier table\<close>

lemmas multiplier_defs =
  generateMultipliers_def multiplierAt_def curveMultiplier_def distanceFromCenter_def
  roundStandard_def

text \<open>
  Claim C1, as amended. The literal sequence 1000, 180, 260, 91, 48, 22, 2, 2, 2, 2, 24, 44,
  94, 268, 630, 0 is the fixed entry for the high risk level in the table of the draft
  \<open>PlinkoGame.generateMultipliers\<close>, which takes no slot count. The generator
  \<open>Utils.generateMultipliers\<close> has no special case for sixteen slots: at high risk and
  sixteen slots it returns 1000, 130, 26, 153, 63, 2, 2, 0.2, 0.2, 0.2, 2, 2, 63, 26, 130,
  1000.
\<close>

theorem high_16_tables:
  "PlinkoGame_generateMultipliers High =
     map Num [1000, 180, 260, 91, 48, 22, 2, 2, 2, 2, 24, 44, 94, 268, 630, 0]
   \<and> generateMultipliers High 16 =
     map Num [1000, 130, 26, 153, 63, 2, 2, 2 / 10, 2 / 10, 2 / 10, 2, 2, 63, 26, 130, 1000]"
  by (simp add: multiplier_defs upto_rec1 floor_eq_iff power_divide)

text \<open>
  Claim C1 as it is written fails: the generator's table for high risk and sixteen slots is
  not the literal sequence (the second entry is 130, not 180).
\<close>

theorem high_16_not_literal:
  "generateMultipliers High 16 \<noteq>
     map Num [1000, 180, 260, 91, 48, 22, 2, 2, 2, 2, 24, 44, 94, 268, 630, 0]"
  by (simp add: multiplier_defs upto_rec1)

text \<open>
  For an odd number of slots the loop body gives mirrored slots the same multiplier: the
  centre index is then the middle slot.
\<close>

lemma multiplierAt_mirror_odd:
  assumes "odd n"
  shows "multiplierAt r n (n - 1 - i) = multiplierAt r n i"
proof -
  obtain c where n: "n = 2 * c + 1" using assms by (auto elim: oddE)
  have c: "n div 2 = c" using n by simp
  have a: "\<bar>n - 1 - i - n div 2\<bar> = \<bar>i - n div 2\<bar>" using n c by simp
  have d: "distanceFromCenter n (n - 1 - i) = distanceFromCenter n i"
    by (simp only: distanceFromCenter_def a)
  have cm: "curveMultiplier r n (n - 1 - i) = curveMultiplier r n i"
    by (simp only: curveMultiplier_def d)
  show ?thesis
    unfolding multiplierAt_def cm a Let_def by auto
qed

lemma generateMultipliers_nth:
  "0 \<le> i \<Longrightarrow> i < n \<Longrightarrow> generateMultipliers r n ! nat i = multiplierAt r n i"
  by (simp add: generateMultipliers_def)

lemma generateMultipliers_symmetric_odd:
  assumes "odd n" and "0 \<le> i" and "i < n"
  shows "generateMultipliers r n ! nat (n - 1 - i) = generateMultipliers r n ! nat i"
  using assms
  by (simp add: generateMultipliers_nth multiplierAt_mirror_odd)

text \<open>
  Claim C4 at the input where the code departs from it: for eight slots at high risk the
  table is 1000, 130, 26, 4, 0.2, 26, 130, 1000, and the mirrored entries at the indices 3
  and 4 differ. With an even number of slots the centre index \<open>floor(slots / 2)\<close> lies half
  a slot to the right of the middle.
\<close>

theorem high_8_not_symmetric:
  "generateMultipliers High 8 = map Num [1000, 130, 26, 4, 2 / 10, 26, 130, 1000]
   \<and> generateMultipliers High 8 ! 3 \<noteq> generateMultipliers High 8 ! (8 - 1 - 3)"
  by (simp add: multiplier_defs upto_rec1 floor_eq_iff power_divide)

lemma round_half_le: "a \<le> of_int k \<Longrightarrow> \<lfloor>a + 1 / 2\<rfloor> \<le> k" for k :: int and a :: real
  by (simp add: floor_le_iff)

lemma round_half_ge: "of_int k \<le> a \<Longrightarrow> k \<le> \<lfloor>a + 1 / 2\<rfloor>" for k :: int and a :: real
  by (simp add: le_floor_iff)

text \<open>The rounding keeps the order of finite values, across its three ranges.\<close>

lemma roundStandard_mono:
  assumes "a \<le> b"
  shows "roundStandard (Num a) \<le> roundStandard (Num b)"
proof -
  consider (big) "10 < a" | (mid) "2 < a" "a \<le> 10" | (small) "a \<le> 2" by linarith
  then show ?thesis
  proof cases
    case big
    with assms show ?thesis by (simp add: roundStandard_def floor_mono)
  next
    case mid
    show ?thesis
    proof (cases "10 < b")
      case True
      have "\<lfloor>a * 2 + 1 / 2\<rfloor> \<le> 20" using mid round_half_le [of "a * 2" 20] by simp
      moreover have "10 \<le> \<lfloor>b + 1 / 2\<rfloor>" using True round_half_ge [of 10 b] by simp
      ultimately have "real_of_int \<lfloor>a * 2 + 1 / 2\<rfloor> / 2 \<le> real_of_int \<lfloor>b + 1 / 2\<rfloor>"
        by linarith
      with mid True show ?thesis by (simp add: roundStandard_def)
    next
      case False
      have "\<lfloor>a * 2 + 1 / 2\<rfloor> \<le> \<lfloor>b * 2 + 1 / 2\<rfloor>" using assms by (simp add: floor_mono)
      with mid False assms show ?thesis by (simp add: roundStandard_def divide_right_mono)
    qed
  next
    case small
    have s: "\<lfloor>a * 10 + 1 / 2\<rfloor> \<le> 20" using small round_half_le [of "a * 10" 20] by simp
    consider (bb) "10 < b" | (bm) "2 < b" "b \<le> 10" | (bs) "b \<le> 2" by linarith
    then show ?thesis
    proof cases
      case bb
      have "10 \<le> \<lfloor>b + 1 / 2\<rfloor>" using bb round_half_ge [of 10 b] by simp
      with s have "real_of_int \<lfloor>a * 10 + 1 / 2\<rfloor> / 10 \<le> real_of_int \<lfloor>b + 1 / 2\<rfloor>"
        by linarith
      with small bb show ?thesis by (simp add: roundStandard_def)
    next
      case bm
      have "4 \<le> \<lfloor>b * 2 + 1 / 2\<rfloor>" using bm round_half_ge [of 4 "b * 2"] by simp
      with s have "real_of_int \<lfloor>a * 10 + 1 / 2\<rfloor> / 10 \<le> real_of_int \<lfloor>b * 2 + 1 / 2\<rfloor> / 2"
        by linarith
      with small bm show ?thesis by (simp add: roundStandard_def)
    next
      case bs
      have "\<lfloor>a * 10 + 1 / 2\<rfloor> \<le> \<lfloor>b * 10 + 1 / 2\<rfloor>" using assms by (simp add: floor_mono)
      with small bs show ?thesis by (simp add: roundStandard_def divide_right_mono)
    qed
  qed
qed

lemma set_spread:
  "set_min (multiplierSets r) < set_max (multiplierSets r) \<and> 0 < set_curve (multiplierSets r)"
  by (cases r) simp_all

lemma distanceFromCenter_Num:
  "2 \<le> n \<Longrightarrow>
   distanceFromCenter n i = Num (of_int \<bar>i - n div 2\<bar> / of_int (n div 2))"
  by (simp add: distanceFromCenter_def)

lemma curveMultiplier_Num:
  assumes "2 \<le> n"
  shows "curveMultiplier r n i =
     roundStandard (Num (set_min (multiplierSets r)
        + (set_max (multiplierSets r) - set_min (multiplierSets r))
          * (of_int \<bar>i - n div 2\<bar> / of_int (n div 2)) powr set_curve (multiplierSets r)))"
proof -
  have "0 < n div 2" using assms by simp
  then have "\<not> real_of_int \<bar>i - n div 2\<bar> / real_of_int (n div 2) < 0"
    by (simp add: not_less)
  then show ?thesis
    by (simp add: curveMultiplier_def distanceFromCenter_Num [OF assms] Let_def)
qed

text \<open>
  Claim C7. For every risk level and at least three slots, the values of the distribution
  formula, before any override of the high risk level, fall from the left edge to the centre
  index: for indices \<open>0 \<le> i \<le> j \<le> floor(slots / 2)\<close> the value at \<open>j\<close> is at most the
  value at \<open>i\<close>, and both are finite. Numbers are exact reals here.
\<close>

theorem curve_falls_toward_center:
  assumes "3 \<le> n" and "0 \<le> i" and "i \<le> j" and "j \<le> n div 2"
  shows "curveMultiplier r n j \<le> curveMultiplier r n i"
proof -
  let ?c = "n div 2"
  let ?s = "multiplierSets r"
  have c: "0 < ?c" using assms(1) by simp
  have "real_of_int \<bar>j - ?c\<bar> \<le> real_of_int \<bar>i - ?c\<bar>" using assms by simp
  then have d: "real_of_int \<bar>j - ?c\<bar> / real_of_int ?c \<le> real_of_int \<bar>i - ?c\<bar> / real_of_int ?c"
    using c by (simp add: divide_right_mono)
  have d0: "0 \<le> real_of_int \<bar>j - ?c\<bar> / real_of_int ?c" using c by simp
  have p: "(real_of_int \<bar>j - ?c\<bar> / real_of_int ?c) powr set_curve ?s
         \<le> (real_of_int \<bar>i - ?c\<bar> / real_of_int ?c) powr set_curve ?s"
    using set_spread [of r] d d0 by (intro powr_mono2) simp_all
  have "set_min ?s + (set_max ?s - set_min ?s) * (real_of_int \<bar>j - ?c\<bar> / real_of_int ?c) powr set_curve ?s
      \<le> set_min ?s + (set_max ?s - set_min ?s) * (real_of_int \<bar>i - ?c\<bar> / real_of_int ?c) powr set_curve ?s"
    using set_spread [of r] p by (simp add: mult_left_mono)
  then show ?thesis
    using assms(1) by (simp add: curveMultiplier_Num roundStandard_mono)
qed

theorem curve_falls_toward_center_witness:
  "(3::int) \<le> 17 \<and> (0::int) \<le> 0 \<and> (0::int) \<le> 8 \<and> (8::int) \<le> 17 div 2
   \<and> curveMultiplier Low 17 8 \<le> curveMultiplier Low 17 0"
  using curve_falls_toward_center [of 17 0 8 Low] by simp

section \<open>Rounding to doubles\<close>

lemma pow2_powr: "pow2 k = 2 powr of_int k"
proof (cases "0 \<le> k")
  case True
  then have "2 powr real_of_int k = 2 powr real (nat k)" by simp
  also have "\<dots> = 2 ^ nat k" by (simp only: powr_realpow [of 2, simplified])
  finally show ?thesis using True by (simp add: pow2_def)
next
  case False
  then have "2 powr real_of_int k = 2 powr (- real (nat (- k)))" by simp
  also have "\<dots> = 1 / 2 powr real (nat (- k))" by (simp only: powr_minus_divide)
  also have "\<dots> = 1 / 2 ^ nat (- k)" by (simp only: powr_realpow [of 2, simplified])
  finally show ?thesis using False by (simp add: pow2_def)
qed

lemma pow2_pos [simp]: "0 < pow2 k"
  by (simp add: pow2_def)

lemma pow2_add: "pow2 (a + b) = pow2 a * pow2 b"
  by (simp add: pow2_powr powr_add)

lemma pow2_nonneg_int: "0 \<le> k \<Longrightarrow> pow2 k = of_int (2 ^ nat k)"
  by (simp add: pow2_def)

lemma roundTiesToEven_of_int [simp]: "roundTiesToEven (of_int m) = m"
  by (simp add: roundTiesToEven_def)

text \<open>A value less than a half away from an integer rounds to it.\<close>

lemma roundTiesToEven_eqI:
  assumes "of_int n - 1 / 2 < y" and "y < of_int n + 1 / 2"
  shows "roundTiesToEven y = n"
proof -
  have "\<lfloor>y\<rfloor> = n \<or> \<lfloor>y\<rfloor> = n - 1" using assms by linarith
  then show ?thesis
  proof
    assume f: "\<lfloor>y\<rfloor> = n"
    then have "y - of_int n < 1 / 2" using assms by linarith
    with f show ?thesis by (simp add: roundTiesToEven_def)
  next
    assume f: "\<lfloor>y\<rfloor> = n - 1"
    then have "1 / 2 < y - of_int (n - 1)" using assms by simp
    with f show ?thesis by (simp add: roundTiesToEven_def)
  qed
qed

lemma floor_log2_eq:
  assumes "pow2 e \<le> \<bar>v\<bar>" and "\<bar>v\<bar> < pow2 (e + 1)"
  shows "\<lfloor>log 2 \<bar>v\<bar>\<rfloor> = e"
proof -
  have "0 < \<bar>v\<bar>" using assms(1) pow2_pos [of e] by linarith
  then show ?thesis
    using assms by (simp add: floor_log_eq_powr_iff pow2_powr)
qed

text \<open>The rounding of a value whose binade is known.\<close>

lemma roundDouble_eval:
  assumes "pow2 e \<le> \<bar>v\<bar>" and "\<bar>v\<bar> < pow2 (e + 1)" and "- 1022 \<le> e"
  shows "roundDouble v = pow2 (e - 52) * of_int (roundTiesToEven (v / pow2 (e - 52)))"
proof -
  have "0 < \<bar>v\<bar>" using assms(1) pow2_pos [of e] by linarith
  then have "v \<noteq> 0" by simp
  moreover have "max (e - 52) (- 1074) = e - 52" using assms(3) by simp
  ultimately show ?thesis
    by (simp add: roundDouble_def floor_log2_eq [OF assms(1,2)] Let_def)
qed

lemma roundDouble_zero [simp]: "roundDouble 0 = 0"
  by (simp add: roundDouble_def)

text \<open>A double is its own rounding.\<close>

lemma roundDouble_exact:
  assumes "v = of_int k * pow2 j" and "\<bar>k\<bar> < 2 ^ 53" and "- 1074 \<le> j"
  shows "roundDouble v = v"
proof (cases "v = 0")
  case True
  then show ?thesis by simp
next
  case False
  define ue where "ue = max (\<lfloor>log 2 \<bar>v\<bar>\<rfloor> - 52) (- 1074)"
  have vpos: "0 < \<bar>v\<bar>" using False by simp
  have "\<bar>v\<bar> = of_int \<bar>k\<bar> * pow2 j" using assms(1) by (simp add: abs_mult abs_of_pos)
  also have "\<dots> < 2 ^ 53 * pow2 j"
  proof -
    have "real_of_int \<bar>k\<bar> < 2 ^ 53" using assms(2) by (metis of_int_less_numeral_power_cancel_iff)
    then show ?thesis by (simp add: mult_strict_right_mono)
  qed
  also have "\<dots> = pow2 (53 + j)"
  proof -
    have "(2::real) ^ 53 = pow2 53" by (simp add: pow2_def)
    then show ?thesis by (simp only: pow2_add)
  qed
  finally have "\<bar>v\<bar> < 2 powr of_int (53 + j)" by (simp add: pow2_powr)
  then have "log 2 \<bar>v\<bar> < of_int (53 + j)"
    using vpos by (simp add: log_less_iff)
  then have "\<lfloor>log 2 \<bar>v\<bar>\<rfloor> < 53 + j" by (simp add: floor_less_iff)
  then have le: "ue \<le> j" using assms(3) by (simp add: ue_def)
  have "pow2 j = pow2 ue * pow2 (j - ue)" by (simp add: pow2_add [symmetric])
  also have "pow2 (j - ue) = of_int (2 ^ nat (j - ue))" using le by (simp add: pow2_nonneg_int)
  finally have pj: "pow2 j = pow2 ue * of_int (2 ^ nat (j - ue))" .
  have nz: "pow2 ue \<noteq> 0" using pow2_pos [of ue] by linarith
  have q: "v / pow2 ue = of_int (k * 2 ^ nat (j - ue))"
    using nz by (simp add: assms(1) pj)
  then have "roundTiesToEven (v / pow2 ue) = k * 2 ^ nat (j - ue)"
    by (simp only: roundTiesToEven_of_int)
  then have "pow2 ue * of_int (roundTiesToEven (v / pow2 ue)) = pow2 ue * (v / pow2 ue)"
    using q by simp
  also have "\<dots> = v" using nz by simp
  finally show ?thesis using False by (simp add: roundDouble_def ue_def Let_def)
qed

lemma roundDouble_of_int: "\<bar>k\<bar> < 2 ^ 53 \<Longrightarrow> roundDouble (of_int k) = of_int k"
  using roundDouble_exact [of "of_int k" k 0] by (simp add: pow2_def)

lemma roundDouble_numeral [simp]:
  "numeral n < (2::int) ^ 53 \<Longrightarrow> roundDouble (numeral n) = numeral n"
  using roundDouble_of_int [of "numeral n"] by simp

lemma roundDouble_one [simp]: "roundDouble 1 = 1"
  using roundDouble_of_int [of 1] by simp

section \<open>The board layout\<close>

lemma length_generateMultipliers: "length (generateMultipliers r n) = nat n"
  by (simp add: generateMultipliers_def)

lemma length_generateSlots: "length (gs_slots (generateSlots g n)) = nat n"
  by (simp add: generateSlots_def Let_def)

lemma gs_rows_generateSlots: "gs_rows (generateSlots g n) = gs_rows g"
  by (simp add: generateSlots_def Let_def)

lemma initGame_layout:
  "gs_rows (initGame cw ch g) = gs_rows g
   \<and> gs_risk (initGame cw ch g) = gs_risk g
   \<and> length (gs_slots (initGame cw ch g)) = nat (gs_rows g + 1)
   \<and> length (gs_multipliers (initGame cw ch g)) = nat (gs_rows g + 1)"
  by (simp add: initGame_def Let_def generateSlots_def generatePegs_def resizeCanvas_def
      length_generateMultipliers)

lemma initGame_fields:
  "canvas_width (initGame cw ch g) = cw"
  "canvas_height (initGame cw ch g) = ch"
  "gs_slots (initGame cw ch g) = gs_slots (generateSlots (resizeCanvas cw ch g) (gs_rows g + 1))"
  "gs_multipliers (initGame cw ch g) = generateMultipliers (gs_risk g) (gs_rows g + 1)"
  "gs_pegs (initGame cw ch g) = gs_pegs (generatePegs (resizeCanvas cw ch g))"
  "slots (physics (initGame cw ch g)) = gs_slots (initGame cw ch g)"
  "pegs (physics (initGame cw ch g)) = gs_pegs (initGame cw ch g)"
  by (simp_all add: initGame_def Let_def generateSlots_def generatePegs_def resizeCanvas_def init_def)




lemma initGame_engine:
  "ballRadius (physics (initGame cw ch g)) = ballRadius (physics g)"
  by (simp add: initGame_def Let_def generateSlots_def generatePegs_def resizeCanvas_def init_def)

lemma new_PlinkoGame_fields:
  "canvas_width (new_PlinkoGame cw ch m) = cw"
  "canvas_height (new_PlinkoGame cw ch m) = ch"
  "gs_rows (new_PlinkoGame cw ch m) = 16"
  "gs_risk (new_PlinkoGame cw ch m) = High"
  "slots (physics (new_PlinkoGame cw ch m)) = gs_slots (new_PlinkoGame cw ch m)"
  "length (gs_slots (new_PlinkoGame cw ch m)) = 17"
  "length (gs_multipliers (new_PlinkoGame cw ch m)) = 17"
  "ballRadius (physics (new_PlinkoGame cw ch m)) = Num 8"
  unfolding new_PlinkoGame_def
  by (simp_all add: initGame_fields(1,2,6) initGame_layout initGame_engine
      new_PhysicsEngine_def BALL_RADIUS_def Let_def)

text \<open>
  Claim C9, as amended. For a row count of at least \<open>-1\<close>, and so for every row count
  that is not negative, the board that \<open>initGame\<close> generates, at the start or after a change
  of the row count, has as many slots as multipliers, one more than rows; a change of the risk
  level and a resize of the window keep these counts. Whatever the row count, the slots are
  as many as the multipliers.
\<close>

theorem slots_multipliers_count:
  "(- 1 \<le> gs_rows g \<longrightarrow>
      int (length (gs_slots (initGame cw ch g))) = gs_rows (initGame cw ch g) + 1
    \<and> int (length (gs_multipliers (initGame cw ch g))) = gs_rows (initGame cw ch g) + 1)
 \<and> (- 1 \<le> v \<longrightarrow>
      int (length (gs_slots (rowsCountChange v cw ch g))) = gs_rows (rowsCountChange v cw ch g) + 1
    \<and> int (length (gs_multipliers (rowsCountChange v cw ch g))) = gs_rows (rowsCountChange v cw ch g) + 1
    \<and> gs_rows (rowsCountChange v cw ch g) = v)
 \<and> (int (length (gs_slots g)) = gs_rows g + 1 \<and> int (length (gs_multipliers g)) = gs_rows g + 1 \<longrightarrow>
      int (length (gs_slots (riskLevelChange l g))) = gs_rows (riskLevelChange l g) + 1
    \<and> int (length (gs_multipliers (riskLevelChange l g))) = gs_rows (riskLevelChange l g) + 1)
 \<and> (int (length (gs_slots g)) = gs_rows g + 1 \<and> int (length (gs_multipliers g)) = gs_rows g + 1 \<longrightarrow>
      int (length (gs_slots (windowResize cw ch g))) = gs_rows (windowResize cw ch g) + 1
    \<and> int (length (gs_multipliers (windowResize cw ch g))) = gs_rows (windowResize cw ch g) + 1)
 \<and> length (gs_slots (rowsCountChange v cw ch g)) = length (gs_multipliers (rowsCountChange v cw ch g))"
proof (intro conjI impI)
  assume "- 1 \<le> gs_rows g"
  then show "int (length (gs_slots (initGame cw ch g))) = gs_rows (initGame cw ch g) + 1"
    and "int (length (gs_multipliers (initGame cw ch g))) = gs_rows (initGame cw ch g) + 1"
    by (simp_all add: initGame_layout)
next
  assume "- 1 \<le> v"
  then show "int (length (gs_slots (rowsCountChange v cw ch g))) = gs_rows (rowsCountChange v cw ch g) + 1"
    and "int (length (gs_multipliers (rowsCountChange v cw ch g))) = gs_rows (rowsCountChange v cw ch g) + 1"
    and "gs_rows (rowsCountChange v cw ch g) = v"
    by (simp_all add: rowsCountChange_def initGame_layout)
next
  assume a: "int (length (gs_slots g)) = gs_rows g + 1 \<and> int (length (gs_multipliers g)) = gs_rows g + 1"
  then have "0 \<le> gs_rows g + 1" by linarith
  with a show "int (length (gs_slots (riskLevelChange l g))) = gs_rows (riskLevelChange l g) + 1"
    and "int (length (gs_multipliers (riskLevelChange l g))) = gs_rows (riskLevelChange l g) + 1"
    by (simp_all add: riskLevelChange_def Let_def length_generateMultipliers)
next
  assume a: "int (length (gs_slots g)) = gs_rows g + 1 \<and> int (length (gs_multipliers g)) = gs_rows g + 1"
  then have "0 \<le> gs_rows g + 1" by linarith
  with a show "int (length (gs_slots (windowResize cw ch g))) = gs_rows (windowResize cw ch g) + 1"
    and "int (length (gs_multipliers (windowResize cw ch g))) = gs_rows (windowResize cw ch g) + 1"
    by (simp_all add: windowResize_def Let_def generateSlots_def generatePegs_def resizeCanvas_def)
next
  show "length (gs_slots (rowsCountChange v cw ch g)) = length (gs_multipliers (rowsCountChange v cw ch g))"
    by (simp add: rowsCountChange_def initGame_layout)
qed

theorem slots_multipliers_count_witness:
  "- 1 \<le> gs_rows (new_PlinkoGame 170 600 False)
   \<and> int (length (gs_slots (initGame 170 600 (new_PlinkoGame 170 600 False)))) = 17
   \<and> int (length (gs_multipliers (initGame 170 600 (new_PlinkoGame 170 600 False)))) = 17
   \<and> int (length (gs_slots (rowsCountChange 8 170 600 (new_PlinkoGame 170 600 False)))) = 9
   \<and> int (length (gs_multipliers (rowsCountChange 8 170 600 (new_PlinkoGame 170 600 False)))) = 9
   \<and> int (length (gs_multipliers (riskLevelChange Low (new_PlinkoGame 170 600 False)))) = 17
   \<and> int (length (gs_slots (windowResize 340 600 (new_PlinkoGame 170 600 False)))) = 17"
  using slots_multipliers_count [of "new_PlinkoGame 170 600 False" 170 600 8 Low]
    slots_multipliers_count [of "new_PlinkoGame 170 600 False" 340 600 8 Low]
  by (simp add: new_PlinkoGame_fields initGame_layout rowsCountChange_def riskLevelChange_def
      windowResize_def Let_def generateSlots_def generatePegs_def resizeCanvas_def)

text \<open>
  Claim C9 as it is written fails for a row count below \<open>-1\<close>, which the listener of the
  row count stores like any other: after a change to \<open>-2\<close> the board has no slots and no
  multipliers, and one more than the row count is \<open>-1\<close>.
\<close>

theorem negative_rows_counts_differ:
  "gs_rows (rowsCountChange (- 2) 800 600 (new_PlinkoGame 800 600 False)) + 1 = - 1
   \<and> int (length (gs_slots (rowsCountChange (- 2) 800 600 (new_PlinkoGame 800 600 False)))) = 0
   \<and> int (length (gs_multipliers (rowsCountChange (- 2) 800 600 (new_PlinkoGame 800 600 False)))) = 0"
  by (simp add: rowsCountChange_def initGame_layout)

lemma generatePegs_nonpositive: "gs_rows g \<le> 0 \<Longrightarrow> gs_pegs (generatePegs g) = []"
  by (simp add: generatePegs_def)

text \<open>
  Claim C8, as amended. A change of the row count is not validated: whatever row count is
  requested, positive or not, is stored, and pegs, slots and multipliers are generated anew
  from it, one slot and one multiplier for each index from 0 to the row count, and no pegs
  when the row count is not positive. A resize stores the client size of the container as
  it is, zero included, and lays the slots out again, with width zero when the canvas width
  is zero. Nothing is rejected, and the previous layout is not kept.
\<close>

theorem rows_change_unchecked:
  "gs_rows (rowsCountChange v cw ch g) = v
   \<and> length (gs_slots (rowsCountChange v cw ch g)) = nat (v + 1)
   \<and> length (gs_multipliers (rowsCountChange v cw ch g)) = nat (v + 1)
   \<and> (v \<le> 0 \<longrightarrow> gs_pegs (rowsCountChange v cw ch g) = [])
   \<and> canvas_width (windowResize cw ch g) = cw
   \<and> canvas_height (windowResize cw ch g) = ch
   \<and> length (gs_slots (windowResize cw ch g)) = nat (gs_rows g + 1)
   \<and> (cw = 0 \<longrightarrow> (\<forall>s \<in> set (gs_slots (windowResize cw ch g)). slot_width s = Num 0))"
  by (auto simp: rowsCountChange_def initGame_layout initGame_fields generatePegs_nonpositive
      resizeCanvas_def windowResize_def Let_def generateSlots_def generatePegs_def
      length_generateMultipliers)

theorem rows_change_unchecked_witness:
  "gs_rows (rowsCountChange 0 800 600 (new_PlinkoGame 800 600 False)) = 0
   \<and> length (gs_slots (rowsCountChange 0 800 600 (new_PlinkoGame 800 600 False))) = 1
   \<and> length (gs_multipliers (rowsCountChange 0 800 600 (new_PlinkoGame 800 600 False))) = 1
   \<and> gs_pegs (rowsCountChange 0 800 600 (new_PlinkoGame 800 600 False)) = []
   \<and> canvas_width (windowResize 0 0 (new_PlinkoGame 800 600 False)) = 0"
  using rows_change_unchecked [of 0 800 600 "new_PlinkoGame 800 600 False"]
    rows_change_unchecked [of 0 0 0 "new_PlinkoGame 800 600 False"]
  by simp

text \<open>
  Claim C8 as it is written fails: on a board of sixteen rows, a change of the row count to
  \<open>-3\<close> leaves no pegs, no slots and no multipliers, a change to 0 leaves one multiplier
  and no pegs, and a resize to a container of size zero sets the canvas to zero.
\<close>

theorem invalid_rows_replace_layout:
  "length (gs_slots (new_PlinkoGame 800 600 False)) = 17
   \<and> length (gs_multipliers (new_PlinkoGame 800 600 False)) = 17
   \<and> gs_rows (rowsCountChange (- 3) 800 600 (new_PlinkoGame 800 600 False)) = - 3
   \<and> gs_pegs (rowsCountChange (- 3) 800 600 (new_PlinkoGame 800 600 False)) = []
   \<and> gs_slots (rowsCountChange (- 3) 800 600 (new_PlinkoGame 800 600 False)) = []
   \<and> gs_multipliers (rowsCountChange (- 3) 800 600 (new_PlinkoGame 800 600 False)) = []
   \<and> slots (physics (rowsCountChange (- 3) 800 600 (new_PlinkoGame 800 600 False))) = []
   \<and> gs_rows (rowsCountChange 0 800 600 (new_PlinkoGame 800 600 False)) = 0
   \<and> gs_pegs (rowsCountChange 0 800 600 (new_PlinkoGame 800 600 False)) = []
   \<and> gs_multipliers (rowsCountChange 0 800 600 (new_PlinkoGame 800 600 False)) = [Num 1000]
   \<and> canvas_width (windowResize 0 0 (new_PlinkoGame 800 600 False)) = 0
   \<and> canvas_height (windowResize 0 0 (new_PlinkoGame 800 600 False)) = 0"
  by (simp add: new_PlinkoGame_fields rowsCountChange_def initGame_fields generatePegs_nonpositive
      resizeCanvas_def generateSlots_def windowResize_def Let_def generatePegs_def
      multiplier_defs initGame_layout)

section \<open>The ball simulator\<close>

lemma updateBall_terminal:
  "inSlot b \<or> sleeping b \<or> isOutOfBounds w b \<Longrightarrow> updateBall e w dt rnd (b, k) = (b, k)"
  by (auto simp: updateBall_def)

text \<open>
  Claim C10, as amended. A ball that is in a slot or asleep is returned by \<open>updateBall\<close> as
  it is, with every field unchanged and no random draw used, and so by every later update as
  well, the two flags being fields of the unchanged ball. A ball that is out of bounds is
  returned unchanged by every update at which it is out of bounds for the window of that
  update: the bound \<open>window.innerHeight + 100\<close> is read anew each time.
\<close>

theorem terminal_ball_unchanged:
  assumes "inSlot b \<or> sleeping b \<or> (\<forall>s \<in> set steps. isOutOfBounds (fst (snd s)) b)"
  shows "foldl (\<lambda>bk (e, w, dt, rnd). updateBall e w dt rnd bk) (b, k) steps = (b, k)"
  using assms
proof (induction steps)
  case Nil
  show ?case by simp
next
  case (Cons s steps)
  obtain e w dt rnd where s: "s = (e, w, dt, rnd)" by (cases s) auto
  have "inSlot b \<or> sleeping b \<or> isOutOfBounds w b" using Cons.prems s by auto
  then have "updateBall e w dt rnd (b, k) = (b, k)" by (rule updateBall_terminal)
  moreover have "foldl (\<lambda>bk (e, w, dt, rnd). updateBall e w dt rnd bk) (b, k) steps = (b, k)"
    using Cons by auto
  ultimately show ?case using s by simp
qed

theorem terminal_ball_unchanged_witness:
  "isOutOfBounds \<lparr>innerWidth = Num 800, innerHeight = Num 600\<rparr>
     (createBall (physics (new_PlinkoGame 800 600 False)) (Num 100) (Num 900))
   \<and> foldl (\<lambda>bk (e, w, dt, rnd). updateBall e w dt rnd bk)
       (createBall (physics (new_PlinkoGame 800 600 False)) (Num 100) (Num 900), 0)
       [(physics (new_PlinkoGame 800 600 False),
         \<lparr>innerWidth = Num 800, innerHeight = Num 600\<rparr>, Num 16, \<lambda>n. 1 / 2),
        (physics (new_PlinkoGame 800 600 False),
         \<lparr>innerWidth = Num 800, innerHeight = Num 600\<rparr>, Num 17, \<lambda>n. 1 / 2)]
     = (createBall (physics (new_PlinkoGame 800 600 False)) (Num 100) (Num 900), 0)"
  using terminal_ball_unchanged
    [of "createBall (physics (new_PlinkoGame 800 600 False)) (Num 100) (Num 900)"
        "[(physics (new_PlinkoGame 800 600 False),
           \<lparr>innerWidth = Num 800, innerHeight = Num 600\<rparr>, Num 16, \<lambda>n. 1 / 2),
          (physics (new_PlinkoGame 800 600 False),
           \<lparr>innerWidth = Num 800, innerHeight = Num 600\<rparr>, Num 17, \<lambda>n. 1 / 2)]" 0]
  by (simp add: isOutOfBounds_def createBall_def)

lemma getObjectsNear_empty: "grid g = Map.empty \<Longrightarrow> getObjectsNear g px py radius = []"
  by (simp add: getObjectsNear_def cellObjects_def Let_def split: option.splits)

lemma new_PhysicsEngine_defaults:
  "cellSize (spatialGrid (new_PhysicsEngine
      \<lparr>opt_gravity = None, opt_restitution = None, opt_friction = None, opt_frameRate = None,
       opt_cellSize = None, opt_ballRadius = None\<rparr> False)) = Num 50"
  "grid (spatialGrid (new_PhysicsEngine
      \<lparr>opt_gravity = None, opt_restitution = None, opt_friction = None, opt_frameRate = None,
       opt_cellSize = None, opt_ballRadius = None\<rparr> False)) = Map.empty"
  "ballRadius (new_PhysicsEngine
      \<lparr>opt_gravity = None, opt_restitution = None, opt_friction = None, opt_frameRate = None,
       opt_cellSize = None, opt_ballRadius = None\<rparr> False) = Num 10"
  "GRAVITY (new_PhysicsEngine
      \<lparr>opt_gravity = None, opt_restitution = None, opt_friction = None, opt_frameRate = None,
       opt_cellSize = None, opt_ballRadius = None\<rparr> False) = Num (5 / 10)"
  "RESTITUTION (new_PhysicsEngine
      \<lparr>opt_gravity = None, opt_restitution = None, opt_friction = None, opt_frameRate = None,
       opt_cellSize = None, opt_ballRadius = None\<rparr> False) = Num (7 / 10)"
  "FRICTION (new_PhysicsEngine
      \<lparr>opt_gravity = None, opt_restitution = None, opt_friction = None, opt_frameRate = None,
       opt_cellSize = None, opt_ballRadius = None\<rparr> False) = Num (2 / 100)"
  "frameCounter (new_PhysicsEngine
      \<lparr>opt_gravity = None, opt_restitution = None, opt_friction = None, opt_frameRate = None,
       opt_cellSize = None, opt_ballRadius = None\<rparr> False) = 0"
  "slots (new_PhysicsEngine
      \<lparr>opt_gravity = None, opt_restitution = None, opt_friction = None, opt_frameRate = None,
       opt_cellSize = None, opt_ballRadius = None\<rparr> False) = []"
  by (simp_all add: new_PhysicsEngine_def Let_def)

lemma engine_one_peg:
  "GRAVITY (init (new_PhysicsEngine
        \<lparr>opt_gravity = None, opt_restitution = None, opt_friction = None,
         opt_frameRate = None, opt_cellSize = None, opt_ballRadius = None\<rparr> False) ps bs ss)
     = Num (5 / 10)"
  "frameCounter (init (new_PhysicsEngine
        \<lparr>opt_gravity = None, opt_restitution = None, opt_friction = None,
         opt_frameRate = None, opt_cellSize = None, opt_ballRadius = None\<rparr> False) ps bs ss)
     = 0"
  "slots (init (new_PhysicsEngine
        \<lparr>opt_gravity = None, opt_restitution = None, opt_friction = None,
         opt_frameRate = None, opt_cellSize = None, opt_ballRadius = None\<rparr> False) ps bs ss)
     = ss"
  by (simp_all add: init_def new_PhysicsEngine_def Let_def)

lemma init_no_pegs: "grid (spatialGrid (init e [] bs ss)) = Map.empty"
  by (simp add: init_def clear_def)

text \<open>
  Claim C10 as it is written fails for a ball that is out of bounds when the window grows,
  as a resize followed by a new \<open>init\<close> with the balls of the game allows. In an engine
  with no pegs and no slots, a ball at \<open>y = 705\<close> is out of bounds in a window 600 high;
  in a window 700 high the next update moves it to \<open>y = 705.5\<close>, gives it the velocity
  0.499 and records the point in its path.
\<close>

theorem taller_window_moves_ball:
  "isOutOfBounds \<lparr>innerWidth = Num 800, innerHeight = Num 600\<rparr>
     \<lparr>ball_x = Num 100, ball_y = Num 705, ball_vx = Num 0, ball_vy = Num 0,
      ball_radius = Num 10, rotation = Num 0, sleeping = False, path = [],
      inSlot = False, slotIndex = - 1\<rparr>
   \<and> fst (updateBall
        (init (new_PhysicsEngine
          \<lparr>opt_gravity = None, opt_restitution = None, opt_friction = None,
           opt_frameRate = None, opt_cellSize = None, opt_ballRadius = None\<rparr> False) [] [] [])
        \<lparr>innerWidth = Num 800, innerHeight = Num 700\<rparr>
        (Num (1000 / 60))
        (\<lambda>n. 1 / 2)
        (\<lparr>ball_x = Num 100, ball_y = Num 705, ball_vx = Num 0, ball_vy = Num 0,
          ball_radius = Num 10, rotation = Num 0, sleeping = False, path = [],
          inSlot = False, slotIndex = - 1\<rparr>, 0))
     = \<lparr>ball_x = Num 100, ball_y = Num (1411 / 2), ball_vx = Num 0, ball_vy = Num (499 / 1000),
        ball_radius = Num 10, rotation = Num 0, sleeping = False,
        path = [(Num 100, Num (1411 / 2))], inSlot = False, slotIndex = - 1\<rparr>"
  by (simp add: isOutOfBounds_def updateBall_def handleCollisions_def getObjectsNear_empty
      init_no_pegs engine_one_peg collideWalls_def checkSlotEntry_def Let_def)

text \<open>The loop of \<open>update\<close> keeps the number of balls and leaves such a ball in its place.\<close>

lemma updateBalls_length: "length (fst (updateBalls e w dt rnd bs k)) = length bs"
  by (induction bs arbitrary: k) (simp_all add: Let_def)

lemma updateBalls_terminal:
  "i < length bs \<Longrightarrow> inSlot (bs ! i) \<or> sleeping (bs ! i) \<or> isOutOfBounds w (bs ! i) \<Longrightarrow>
   fst (updateBalls e w dt rnd bs k) ! i = bs ! i"
proof (induction bs arbitrary: k i)
  case Nil
  then show ?case by simp
next
  case (Cons b bs)
  show ?case
  proof (cases i)
    case 0
    with Cons.prems show ?thesis by (simp add: Let_def updateBall_terminal)
  next
    case (Suc j)
    with Cons show ?thesis by (simp add: Let_def)
  qed
qed







section \<open>The landing timeout\<close>

text \<open>
  Claim C6. When the timer of a dropped ball fires and the ball is in no slot, the ball is
  put into a slot whose index is an integer from 0 below the number of slots, whenever there
  is at least one slot. The draw of \<open>Math.random()\<close> lies in \<open>[0, 1)\<close>.
\<close>

theorem timeout_index_in_range:
  assumes "0 \<le> r" and "r < 1" and "1 \<le> length (gs_slots g)" and "\<not> inSlot b"
  shows "inSlot (dropBall_timeout r g b)
       \<and> 0 \<le> slotIndex (dropBall_timeout r g b)
       \<and> slotIndex (dropBall_timeout r g b) < int (length (gs_slots g))"
proof -
  let ?n = "real (length (gs_slots g))"
  have n: "0 < ?n" using assms(3) by (cases "gs_slots g") auto
  have lo: "0 \<le> r * ?n" using assms(1) by simp
  have hi: "r * ?n < ?n" using assms(2) n by simp
  have "0 \<le> \<lfloor>r * ?n\<rfloor>" using lo by simp
  moreover have "\<lfloor>r * ?n\<rfloor> < int (length (gs_slots g))"
    using hi by (simp add: floor_less_iff)
  ultimately show ?thesis using assms(4) by (simp add: dropBall_timeout_def Utils_random_def)
qed

theorem timeout_index_in_range_witness:
  "(0::real) \<le> 99 / 100 \<and> (99 / 100 :: real) < 1
   \<and> 1 \<le> length (gs_slots (new_PlinkoGame 170 600 False))
   \<and> \<not> inSlot (createBall (physics (new_PlinkoGame 170 600 False)) (Num 85) (Num 50))
   \<and> inSlot (dropBall_timeout (99 / 100) (new_PlinkoGame 170 600 False)
        (createBall (physics (new_PlinkoGame 170 600 False)) (Num 85) (Num 50)))
   \<and> slotIndex (dropBall_timeout (99 / 100) (new_PlinkoGame 170 600 False)
        (createBall (physics (new_PlinkoGame 170 600 False)) (Num 85) (Num 50))) = 16"
  using timeout_index_in_range
    [of "99 / 100" "new_PlinkoGame 170 600 False"
        "createBall (physics (new_PlinkoGame 170 600 False)) (Num 85) (Num 50)"]
  by (simp add: new_PlinkoGame_fields createBall_def dropBall_timeout_def Utils_random_def floor_eq_iff)

section \<open>Queries of the spatial grid\<close>

text \<open>Adding an object changes the one cell of its key, and never the cell size.\<close>

lemma cellSize_addObject [simp]: "cellSize (addObject g p) = cellSize g"
  by (simp add: addObject_def Let_def)

lemma getCellKey_addObject [simp]: "getCellKey (addObject g p) = getCellKey g"
  by (simp add: getCellKey_def fun_eq_iff)

lemma cellObjects_addObject:
  "cellObjects (addObject g p) key =
     (if getCellKey g (peg_x p) (peg_y p) = key then cellObjects g key @ [p]
      else cellObjects g key)"
  by (simp add: addObject_def cellObjects_def Let_def)

lemma cellObjects_foldl_addObject:
  "cellObjects (foldl addObject g ps) key =
     cellObjects g key @ filter (\<lambda>p. getCellKey g (peg_x p) (peg_y p) = key) ps"
  by (induction ps arbitrary: g) (simp_all add: cellObjects_addObject)

lemma cellSize_foldl_addObject [simp]: "cellSize (foldl addObject g ps) = cellSize g"
  by (induction ps arbitrary: g) simp_all

lemma cellObjects_init:
  "cellObjects (spatialGrid (init e ps bs ss)) key =
     filter (\<lambda>p. getCellKey (spatialGrid e) (peg_x p) (peg_y p) = key) ps"
proof -
  have "cellObjects (clear (spatialGrid e)) key = []"
    by (simp add: clear_def cellObjects_def)
  moreover have "getCellKey (clear (spatialGrid e)) = getCellKey (spatialGrid e)"
    by (simp add: clear_def getCellKey_def fun_eq_iff)
  ultimately show ?thesis
    by (simp add: init_def cellObjects_foldl_addObject)
qed

lemma cellSize_init [simp]: "cellSize (spatialGrid (init e ps bs ss)) = cellSize (spatialGrid e)"
  by (simp add: init_def clear_def)









section \<open>A ball on the centre of a peg\<close>

text \<open>The quotient of the query radius 30 by the cell size 50 rounds to a double below 1.\<close>

lemma ceiling_three_fifths: "\<lceil>roundDouble (3 / 5)\<rceil> = 1"
proof -
  have "roundDouble (3 / 5) = 5404319552844595 / 9007199254740992"
    by (simp add: roundDouble_eval [of "- 1"] pow2_def roundTiesToEven_eqI [of 5404319552844595])
  then show ?thesis by (simp add: ceiling_eq_iff)
qed

lemma grid_one_peg:
  "getObjectsNear
     (spatialGrid (init (new_PhysicsEngine
        \<lparr>opt_gravity = None, opt_restitution = None, opt_friction = None,
         opt_frameRate = None, opt_cellSize = None, opt_ballRadius = None\<rparr> False)
        [\<lparr>peg_x = Num 100, peg_y = Num 100, peg_radius = Num 4, hit = False\<rparr>] [] []))
     (Num 100) (Num 100) (Num 30)
   = [\<lparr>peg_x = Num 100, peg_y = Num 100, peg_radius = Num 4, hit = False\<rparr>]"
  by (simp add: getObjectsNear_def new_PhysicsEngine_defaults cellObjects_init getCellKey_def
      Let_def upto_rec1 ceiling_three_fifths)

text \<open>
  Claim C2 at the input where the code departs from it. A ball of radius 10 with its centre
  on the centre of a peg, at (100, 100), overlaps the peg at distance 0. The collision
  handler has no fallback normal: it divides 0 by 0, the normal is \<open>NaN\<close>, and the
  position and the velocity of the ball are \<open>NaN\<close> when the handler returns. Nothing is
  raised. A tick brings a ball there: from (100, 99) with the velocity (0, 0.5), one update
  of a sixtieth of a second moves the ball onto the peg and leaves it with \<open>NaN\<close> for its
  position, velocity and rotation.
\<close>

theorem centre_hit_gives_NaN:
  "fst (handleCollisions
      (init (new_PhysicsEngine
        \<lparr>opt_gravity = None, opt_restitution = None, opt_friction = None,
         opt_frameRate = None, opt_cellSize = None, opt_ballRadius = None\<rparr> False)
        [\<lparr>peg_x = Num 100, peg_y = Num 100, peg_radius = Num 4, hit = False\<rparr>] [] [])
      \<lparr>innerWidth = Num 800, innerHeight = Num 600\<rparr>
      (\<lambda>n. 1 / 2)
      (\<lparr>ball_x = Num 100, ball_y = Num 100, ball_vx = Num 0, ball_vy = Num 1,
        ball_radius = Num 10, rotation = Num 0, sleeping = False, path = [],
        inSlot = False, slotIndex = - 1\<rparr>, 0))
   = \<lparr>ball_x = NaN, ball_y = NaN, ball_vx = NaN, ball_vy = NaN,
      ball_radius = Num 10, rotation = Num 0, sleeping = False, path = [],
      inSlot = False, slotIndex = - 1\<rparr>
   \<and> fst (updateBall
      (init (new_PhysicsEngine
        \<lparr>opt_gravity = None, opt_restitution = None, opt_friction = None,
         opt_frameRate = None, opt_cellSize = None, opt_ballRadius = None\<rparr> False)
        [\<lparr>peg_x = Num 100, peg_y = Num 100, peg_radius = Num 4, hit = False\<rparr>] [] [])
      \<lparr>innerWidth = Num 800, innerHeight = Num 600\<rparr>
      (Num (1000 / 60))
      (\<lambda>n. 1 / 2)
      (\<lparr>ball_x = Num 100, ball_y = Num 99, ball_vx = Num 0, ball_vy = Num (1 / 2),
        ball_radius = Num 10, rotation = Num 0, sleeping = False, path = [],
        inSlot = False, slotIndex = - 1\<rparr>, 0))
   = \<lparr>ball_x = NaN, ball_y = NaN, ball_vx = NaN, ball_vy = NaN,
      ball_radius = Num 10, rotation = NaN, sleeping = False, path = [(NaN, NaN)],
      inSlot = False, slotIndex = - 1\<rparr>
   \<and> \<not> isFinite NaN"
  by (simp add: updateBall_def isOutOfBounds_def engine_one_peg handleCollisions_def
      grid_one_peg collidePeg_def collideWalls_def checkSlotEntry_def Let_def)

end
